theory Spec2Isabelle
  imports Main "HOL-Library.Word" "HOL-Library.Sublist"
begin

section \<open>Errors\<close>

text \<open>
  The exceptions \<^verbatim>\<open>deker/tools/array.py\<close> can raise, as values. A
  \<^verbatim>\<open>DekerValidationError\<close>, a \<^verbatim>\<open>TypeError\<close>, an
  \<^verbatim>\<open>IndexError\<close> and a \<^verbatim>\<open>ValueError\<close> carry their message.
  The message of a \<^verbatim>\<open>DekerMemoryError\<close> holds texts rendered by the external
  formatter \<^verbatim>\<open>convert_size_to_human\<close>; the error carries the three numbers the
  message is rendered from: \<^verbatim>\<open>array_size_bytes\<close>, \<^verbatim>\<open>limit\<close>
  and \<^verbatim>\<open>mem_limit_from_settings\<close>.
\<close>

datatype error =
    DekerValidationError string
  | DekerMemoryError int int int
  | TypeError string
  | IndexError string
  | ValueError string

section \<open>Size arithmetic\<close>

subsection \<open>\<^verbatim>\<open>calculate_total_cells_in_array\<close>\<close>

text \<open>
  \<^verbatim>\<open>int(np.prod(np.array(seq)))\<close>. For a non-empty sequence of Python integers
  that fit the platform integer, \<^verbatim>\<open>np.array\<close> builds an array of dtype
  \<^verbatim>\<open>int64\<close>, and \<^verbatim>\<open>np.prod\<close> multiplies its elements in that
  dtype: the arithmetic is modular and no error is raised on overflow. \<^verbatim>\<open>int\<close>
  then reads the signed 64-bit result. For the empty sequence the array has dtype
  \<^verbatim>\<open>float64\<close> and its product is the neutral element \<^verbatim>\<open>1.0\<close>.

  A shape is therefore a list of 64-bit words, each extent read as a signed value by
  \<open>sint\<close>. Extents outside the signed 64-bit range make \<^verbatim>\<open>np.array\<close>
  choose another dtype and are not part of this model.
\<close>

type_synonym int64 = "64 word"

definition np_prod :: "int64 list \<Rightarrow> int64" where
  "np_prod a = prod_list a"

definition calculate_total_cells_in_array :: "int64 list \<Rightarrow> int" where
  "calculate_total_cells_in_array seq = (if seq = [] then 1 else sint (np_prod seq))"

subsection \<open>Python's \<^verbatim>\<open>int(str)\<close> and \<^verbatim>\<open>str.lower\<close> on ASCII text\<close>

text \<open>
  Strings are ASCII text. \<^verbatim>\<open>int(s)\<close> in base 10 skips the ASCII whitespace
  around \<open>s\<close> (tab, line feed, vertical tab, form feed, carriage return, space),
  reads one optional sign and then decimal digits, where single underscores may stand
  between two digits; anything else is a \<^verbatim>\<open>ValueError\<close>, here \<open>None\<close>.
  The interpreter's cap on the number of digits of one conversion (4300 unless
  configured otherwise) is a setting outside the source and is left out: the model is of
  texts below that cap.
\<close>

definition is_space :: "char \<Rightarrow> bool" where
  "is_space c = (c \<in> set [CHR 0x09, CHR 0x0A, CHR 0x0B, CHR 0x0C, CHR 0x0D, CHR 0x20])"

definition strip :: "string \<Rightarrow> string" where
  "strip s = rev (dropWhile is_space (rev (dropWhile is_space s)))"

definition digit_of :: "char \<Rightarrow> nat option" where
  "digit_of c = map_of (zip ''0123456789'' [0, 1, 2, 3, 4, 5, 6, 7, 8, 9]) c"

fun digits_tail :: "nat \<Rightarrow> string \<Rightarrow> nat option" where
  "digits_tail acc [] = Some acc"
| "digits_tail acc [c] =
     (case digit_of c of Some d \<Rightarrow> Some (10 * acc + d) | None \<Rightarrow> None)"
| "digits_tail acc (c # c' # cs) =
     (case digit_of c of
        Some d \<Rightarrow> digits_tail (10 * acc + d) (c' # cs)
      | None \<Rightarrow>
          (if c = CHR ''_'' then
             (case digit_of c' of
                Some d \<Rightarrow> digits_tail (10 * acc + d) cs
              | None \<Rightarrow> None)
           else None))"

definition digits :: "string \<Rightarrow> nat option" where
  "digits s =
     (case s of
        [] \<Rightarrow> None
      | c # cs \<Rightarrow> (case digit_of c of Some d \<Rightarrow> digits_tail d cs | None \<Rightarrow> None))"

definition int_of_str :: "string \<Rightarrow> int option" where
  "int_of_str s =
     (case strip s of
        [] \<Rightarrow> None
      | c # cs \<Rightarrow>
          if c = CHR ''-'' then map_option (\<lambda>n. - int n) (digits cs)
          else if c = CHR ''+'' then map_option int (digits cs)
          else map_option int (digits (c # cs)))"

definition lower_char :: "char \<Rightarrow> char" where
  "lower_char c =
     (case map_of (zip ''ABCDEFGHIJKLMNOPQRSTUVWXYZ'' ''abcdefghijklmnopqrstuvwxyz'') c of
        Some l \<Rightarrow> l
      | None \<Rightarrow> c)"

definition lower :: "string \<Rightarrow> string" where
  "lower s = map lower_char s"

subsection \<open>\<^verbatim>\<open>convert_human_memory_to_bytes\<close>\<close>

text \<open>
  The argument is any Python object. The function tells three kinds apart with
  \<^verbatim>\<open>isinstance\<close>: an \<^verbatim>\<open>int\<close> (a \<^verbatim>\<open>bool\<close> is one, with
  \<^verbatim>\<open>True\<close> as 1 and \<^verbatim>\<open>False\<close> as 0), a \<^verbatim>\<open>str\<close>, and
  any other object, which is given by the text the f-string of the error message renders
  for it (\<^verbatim>\<open>3.5\<close> is \<open>PyOther ''3.5''\<close>).
\<close>

datatype memory_limit = PyInt int | PyStr string | PyOther string

definition bytes' :: int where
  "bytes' = 1024"

definition mapping :: "char \<Rightarrow> int option" where
  "mapping = [CHR ''k'' \<mapsto> bytes', CHR ''m'' \<mapsto> bytes' ^ 2, CHR ''g'' \<mapsto> bytes' ^ 3]"

definition error_message :: "string \<Rightarrow> string" where
  \<open>error_message memory_limit =
     ''invalid memory_limit value: '' @ memory_limit @
     ''; expected `int` or `str` in format [number][unit] '' @
     ''where unit is one of ["k", "K", "m", "M", "g", "G"], e.g. "8G" or "512m"''\<close>

text \<open>
  Line 62 of the source, \<^verbatim>\<open>memory_limit[:-1], memory_limit.lower()[-1]\<close>, stands
  before the second \<^verbatim>\<open>try\<close>: the slice of an empty string is empty, its last
  character is an \<^verbatim>\<open>IndexError\<close> that nothing catches. Inside the
  \<^verbatim>\<open>try\<close>, \<^verbatim>\<open>int(limit)\<close> is evaluated before
  \<^verbatim>\<open>mapping[div]\<close>, and every exception of either becomes a
  \<^verbatim>\<open>DekerValidationError\<close>.
\<close>

definition convert_human_memory_to_bytes :: "memory_limit \<Rightarrow> error + int" where
  "convert_human_memory_to_bytes memory_limit =
     (case memory_limit of
        PyOther txt \<Rightarrow> Inl (DekerValidationError (error_message txt))
      | PyInt n \<Rightarrow> Inr n
      | PyStr s \<Rightarrow>
          (case int_of_str s of
             Some n \<Rightarrow> Inr n
           | None \<Rightarrow>
               if s = [] then Inl (IndexError ''string index out of range'')
               else
                 (let limit = butlast s; dv = last (lower s) in
                  case int_of_str limit of
                    None \<Rightarrow> Inl (DekerValidationError (error_message s))
                  | Some int_limit \<Rightarrow>
                      (case mapping dv of
                         None \<Rightarrow> Inl (DekerValidationError (error_message s))
                       | Some unit \<Rightarrow> Inr (int_limit * unit)))))"

section \<open>Allocation guard\<close>

text \<open>
  \<^verbatim>\<open>convert_size_to_human\<close> is the formatter of the package
  \<^verbatim>\<open>deker_tools\<close>, which \<^verbatim>\<open>check_memory\<close> calls on the required
  size and on the limit before it compares them. It returns \<^verbatim>\<open>"0 B"\<close> for 0.
  For any other size it takes \<^verbatim>\<open>math.log(size, 1024)\<close>, which is a
  \<^verbatim>\<open>ValueError\<close> for a negative size, and looks the unit up in a table of nine
  names by the integer part of that logarithm, which is an \<^verbatim>\<open>IndexError\<close>
  from \<open>1024 ^ 9\<close> up. The text it returns goes into the error message only, so
  the model keeps whether the call returns and not the text. The logarithm is computed
  in floating point; its rounding just below \<open>1024 ^ 9\<close> is left out.
\<close>

definition convert_size_to_human :: "int \<Rightarrow> error + unit" where
  "convert_size_to_human n =
     (if n = 0 then Inr ()
      else if n < 0 then Inl (ValueError ''math domain error'')
      else if 1024 ^ 9 \<le> n then Inl (IndexError ''tuple index out of range'')
      else Inr ())"

text \<open>
  \<^verbatim>\<open>check_memory\<close> reads the operating system through \<^verbatim>\<open>psutil\<close>:
  \<^verbatim>\<open>virtual_memory().available\<close> and \<^verbatim>\<open>swap_memory().free\<close>, byte
  counts that the operating system keeps in unsigned 64-bit integers. The two readings of
  one call are an input of the model. The \<^verbatim>\<open>dtype\<close> argument is given by
  \<^verbatim>\<open>np.dtype(dtype).itemsize\<close>, its width in bytes. The product with the cell
  count, the sum of the readings and the comparison are on Python integers, which are
  unbounded. The statements run in the order of the source: the required size is
  rendered before the system is read, the limit after.
\<close>

record os_memory =
  virtual_memory_available :: "64 word"
  swap_memory_free :: "64 word"

definition check_memory :: "os_memory \<Rightarrow> int64 list \<Rightarrow> nat \<Rightarrow> int \<Rightarrow> error + unit" where
  "check_memory os shape itemsize mem_limit_from_settings =
     (let array_values = calculate_total_cells_in_array shape;
          array_size_bytes = int itemsize * array_values
      in case convert_size_to_human array_size_bytes of
           Inl e \<Rightarrow> Inl e
         | Inr array_size_human \<Rightarrow>
             (let current_limit = uint (virtual_memory_available os) + uint (swap_memory_free os);
                  limit = min mem_limit_from_settings current_limit
              in case convert_size_to_human limit of
                   Inl e \<Rightarrow> Inl e
                 | Inr limit_human \<Rightarrow>
                     if array_size_bytes > limit
                     then Inl (DekerMemoryError array_size_bytes limit mem_limit_from_settings)
                     else Inr ()))"

section \<open>Identity generator\<close>

text \<open>
  Modelled from the spec: the enumeration \<^verbatim>\<open>ArrayType\<close> of
  \<^verbatim>\<open>deker.types.private.enums\<close>, which is not among the sources. The spec gives it
  exactly two variants; the source names them \<^verbatim>\<open>ArrayType.array\<close> and
  \<^verbatim>\<open>ArrayType.varray\<close>. The string each member has as its
  \<^verbatim>\<open>value\<close> is a parameter (\<open>array_type_value\<close> below).
\<close>

datatype ArrayType = array | varray

text \<open>
  The argument of \<^verbatim>\<open>generate_uid\<close> is any Python object:
  \<^verbatim>\<open>isinstance(array_type, ArrayType)\<close> holds for the members of the enumeration
  and for nothing else. An object that is no member is given by its text.
\<close>

datatype array_type_arg = Member ArrayType | NonMember string

text \<open>
  What \<^verbatim>\<open>generate_uid\<close> takes from outside: the members' values, the clock
  (\<^verbatim>\<open>get_utc()\<close>, the reading this call gets), the rendering of an instant
  (\<^verbatim>\<open>isoformat()\<close>) and the name-based identifier of the standard library,
  \<^verbatim>\<open>str(uuid.uuid5(namespace, name))\<close>, with the namespace given by its canonical
  text.
\<close>

record 't collaborators =
  array_type_value :: "ArrayType \<Rightarrow> string"
  get_utc :: 't
  isoformat :: "'t \<Rightarrow> string"
  uuid5 :: "string \<Rightarrow> string \<Rightarrow> string"

definition NAMESPACE_X500 :: string where
  "NAMESPACE_X500 = ''6ba7b814-9dad-11d1-80b4-00c04fd430c8''"

definition NAMESPACE_OID :: string where
  "NAMESPACE_OID = ''6ba7b812-9dad-11d1-80b4-00c04fd430c8''"

definition generate_uid :: "'t collaborators \<Rightarrow> array_type_arg \<Rightarrow> error + string" where
  "generate_uid c array_type =
     (case array_type of
        NonMember _ \<Rightarrow> Inl (TypeError ''Invalid argument type. Array type is required'')
      | Member t \<Rightarrow>
          (let namespace = (if t = array then NAMESPACE_X500 else NAMESPACE_OID)
           in Inr (uuid5 c namespace (array_type_value c t @ isoformat c (get_utc c)))))"

text \<open>
  \<^verbatim>\<open>get_id\<close> dispatches on the class of its argument with
  \<^verbatim>\<open>singledispatch\<close>: an instance of \<^verbatim>\<open>Array\<close>, an instance of
  \<^verbatim>\<open>VArray\<close>, or any other object, which is given by the text of its type,
  \<^verbatim>\<open>str(type(arr))\<close>.
\<close>

datatype array_arg = ArrayObject | VArrayObject | OtherObject string

definition get_id :: "'t collaborators \<Rightarrow> array_arg \<Rightarrow> error + string" where
  "get_id c arr =
     (case arr of
        ArrayObject \<Rightarrow> generate_uid c (Member array)
      | VArrayObject \<Rightarrow> generate_uid c (Member varray)
      | OtherObject type_text \<Rightarrow> Inl (TypeError (''Invalid object type: '' @ type_text)))"

section \<open>Properties of the size arithmetic\<close>

subsection \<open>Products of 64-bit extents\<close>

lemma prod_list_zero_member:
  fixes xs :: "int64 list"
  shows "0 \<in> set xs \<Longrightarrow> prod_list xs = 0"
  by (induction xs) auto

lemma prod_list_sint_nonneg:
  fixes xs :: "int64 list"
  shows "\<forall>x\<in>set xs. 0 \<le> sint x \<Longrightarrow> 0 \<le> prod_list (map sint xs)"
  by (induction xs) auto

lemma sint_mult_exact:
  fixes x y :: int64
  assumes "0 \<le> sint x * sint y" and "sint x * sint y < 2 ^ 63"
  shows "sint (x * y) = sint x * sint y"
proof -
  have "sint (x * y) = signed_take_bit 63 (sint x * sint y)"
    by (simp add: sint_word_ariths)
  also have "\<dots> = sint x * sint y"
    using assms by (intro signed_take_bit_int_eq_self) auto
  finally show ?thesis .
qed

lemma sint_prod_exact:
  fixes xs :: "int64 list"
  shows "\<forall>x\<in>set xs. 0 \<le> sint x \<Longrightarrow> prod_list (map sint xs) < 2 ^ 63 \<Longrightarrow>
    sint (prod_list xs) = prod_list (map sint xs)"
proof (induction xs)
  case Nil
  then show ?case by simp
next
  case (Cons x xs)
  let ?p = "prod_list (map sint xs)"
  have nn: "0 \<le> ?p" using Cons.prems(1) by (simp add: prod_list_sint_nonneg)
  have x0: "0 \<le> sint x" using Cons.prems(1) by simp
  have bound: "sint x * ?p < 2 ^ 63" using Cons.prems(2) by simp
  show ?case
  proof (cases "sint x = 0")
    case True
    then have "x = 0" by (simp add: signed_eq_0_iff)
    then show ?thesis by simp
  next
    case False
    with x0 have "1 \<le> sint x" by linarith
    then have "?p \<le> sint x * ?p" using nn by (simp add: mult_le_cancel_right1)
    with bound have "?p < 2 ^ 63" by linarith
    with Cons have ih: "sint (prod_list xs) = ?p" by simp
    have "sint (x * prod_list xs) = sint x * sint (prod_list xs)"
      using x0 nn bound by (intro sint_mult_exact) (simp_all add: ih)
    then show ?thesis by (simp add: ih)
  qed
qed

lemma total_cells_exact:
  "\<forall>x\<in>set seq. 0 \<le> sint x \<Longrightarrow> prod_list (map sint seq) < 2 ^ 63 \<Longrightarrow>
     calculate_total_cells_in_array seq = prod_list (map sint seq)"
  by (simp add: calculate_total_cells_in_array_def np_prod_def sint_prod_exact)

subsection \<open>The cell count\<close>

text \<open>
  C3. The claim: for every sequence of non-negative integers the cell count is the
  product of its elements. On the shape \<open>(2 ^ 32, 2 ^ 32)\<close>, whose extents are
  non-negative and fit 64 bits, the product is \<open>2 ^ 64\<close> and
  \<^verbatim>\<open>calculate_total_cells_in_array\<close> returns 0: the 64-bit product of
  \<^verbatim>\<open>np.prod\<close> wraps around.
\<close>

theorem calculate_total_cells_wraps_to_zero:
  "calculate_total_cells_in_array [4294967296, 4294967296] = 0 \<and>
   prod_list (map sint [4294967296, 4294967296 :: int64]) = 18446744073709551616"
  by (simp add: calculate_total_cells_in_array_def np_prod_def)




section \<open>Properties of the allocation guard\<close>

lemma convert_size_to_human_returns:
  "0 \<le> n \<Longrightarrow> n < 1024 ^ 9 \<Longrightarrow> convert_size_to_human n = Inr ()"
  by (simp add: convert_size_to_human_def)

lemma os_readings_bound:
  "0 \<le> uint (virtual_memory_available os) + uint (swap_memory_free os) \<and>
   uint (virtual_memory_available os) + uint (swap_memory_free os) < 1024 ^ 9"
proof -
  have "uint (virtual_memory_available os) < 2 ^ 64"
    using uint_lt2p [of "virtual_memory_available os"] by simp
  moreover have "uint (swap_memory_free os) < 2 ^ 64"
    using uint_lt2p [of "swap_memory_free os"] by simp
  ultimately show ?thesis by simp
qed

lemma limit_is_rendered:
  assumes "0 \<le> min mem_limit (uint (virtual_memory_available os) + uint (swap_memory_free os))"
  shows "convert_size_to_human
           (min mem_limit (uint (virtual_memory_available os) + uint (swap_memory_free os))) = Inr ()"
proof (rule convert_size_to_human_returns [OF assms])
  show "min mem_limit (uint (virtual_memory_available os) + uint (swap_memory_free os)) < 1024 ^ 9"
    using os_readings_bound [of os] by simp
qed

lemma check_memory_unfold:
  assumes "convert_size_to_human (int itemsize * calculate_total_cells_in_array shape) = Inr ()"
    and "0 \<le> min mem_limit (uint (virtual_memory_available os) + uint (swap_memory_free os))"
  shows "check_memory os shape itemsize mem_limit =
     (if int itemsize * calculate_total_cells_in_array shape >
           min mem_limit (uint (virtual_memory_available os) + uint (swap_memory_free os))
      then Inl (DekerMemoryError (int itemsize * calculate_total_cells_in_array shape)
                 (min mem_limit (uint (virtual_memory_available os) + uint (swap_memory_free os)))
                 mem_limit)
      else Inr ())"
  using assms(1) limit_is_rendered [OF assms(2)]
  by (simp add: check_memory_def Let_def)

text \<open>
  The guard where both sizes can be rendered: for every shape of non-negative extents
  whose product is below \<open>2 ^ 63\<close>, every element width that keeps the required
  size below \<open>1024 ^ 9\<close> bytes and every configured limit that is not negative,
  \<^verbatim>\<open>check_memory\<close> raises a \<^verbatim>\<open>DekerMemoryError\<close> exactly when the product
  of the extents times the width exceeds the minimum of the configured limit and
  available memory plus free swap, and returns normally otherwise. The shape
  \<open>(1000, 1000)\<close> with 8-byte elements and at least 9,000,000 bytes of memory fails
  under a limit of 7,000,000 bytes and passes under 9,000,000.
\<close>

theorem check_memory_decides_below_2_63:
  assumes "\<forall>x\<in>set shape. 0 \<le> sint x" and "prod_list (map sint shape) < 2 ^ 63"
    and "prod_list (map sint shape) * int itemsize < 1024 ^ 9" and "0 \<le> mem_limit"
  shows "((\<exists>a b c. check_memory os shape itemsize mem_limit = Inl (DekerMemoryError a b c)) \<longleftrightarrow>
           prod_list (map sint shape) * int itemsize >
             min mem_limit (uint (virtual_memory_available os) + uint (swap_memory_free os))) \<and>
         (check_memory os shape itemsize mem_limit = Inr () \<longleftrightarrow>
           \<not> prod_list (map sint shape) * int itemsize >
             min mem_limit (uint (virtual_memory_available os) + uint (swap_memory_free os))) \<and>
         (9000000 \<le> uint (virtual_memory_available os) + uint (swap_memory_free os) \<longrightarrow>
           check_memory os [1000, 1000] 8 7000000 =
             Inl (DekerMemoryError 8000000 7000000 7000000) \<and>
           check_memory os [1000, 1000] 8 9000000 = Inr ())"
proof -
  let ?free = "uint (virtual_memory_available os) + uint (swap_memory_free os)"
  have cells: "calculate_total_cells_in_array shape = prod_list (map sint shape)"
    using assms(1,2) by (rule total_cells_exact)
  have "0 \<le> prod_list (map sint shape)"
    using assms(1) by (rule prod_list_sint_nonneg)
  then have "0 \<le> int itemsize * calculate_total_cells_in_array shape"
    by (simp add: cells)
  moreover have "int itemsize * calculate_total_cells_in_array shape < 1024 ^ 9"
    using assms(3) by (simp add: cells mult.commute)
  ultimately have size: "convert_size_to_human
      (int itemsize * calculate_total_cells_in_array shape) = Inr ()"
    by (rule convert_size_to_human_returns)
  have limit: "0 \<le> min mem_limit ?free"
    using assms(4) os_readings_bound [of os] by simp
  have raises: "(\<exists>a b c. check_memory os shape itemsize mem_limit = Inl (DekerMemoryError a b c)) \<longleftrightarrow>
           prod_list (map sint shape) * int itemsize > min mem_limit ?free"
    by (simp add: check_memory_unfold [OF size limit] cells mult.commute)
  have returns: "check_memory os shape itemsize mem_limit = Inr () \<longleftrightarrow>
           \<not> prod_list (map sint shape) * int itemsize > min mem_limit ?free"
    by (simp add: check_memory_unfold [OF size limit] cells mult.commute)
  have small: "calculate_total_cells_in_array [1000, 1000] = 1000000"
    by (simp add: calculate_total_cells_in_array_def np_prod_def)
  have small_size: "convert_size_to_human (int 8 * calculate_total_cells_in_array [1000, 1000]) = Inr ()"
    by (simp add: small convert_size_to_human_def)
  have example: "9000000 \<le> ?free \<longrightarrow>
           check_memory os [1000, 1000] 8 7000000 =
             Inl (DekerMemoryError 8000000 7000000 7000000) \<and>
           check_memory os [1000, 1000] 8 9000000 = Inr ()"
  proof
    assume enough: "9000000 \<le> ?free"
    then have l7: "0 \<le> min 7000000 ?free" and l9: "0 \<le> min 9000000 ?free" by simp_all
    from enough show "check_memory os [1000, 1000] 8 7000000 =
             Inl (DekerMemoryError 8000000 7000000 7000000) \<and>
           check_memory os [1000, 1000] 8 9000000 = Inr ()"
      by (simp add: check_memory_unfold [OF small_size l7]
          check_memory_unfold [OF small_size l9] small)
  qed
  from raises returns example show ?thesis by blast
qed

theorem check_memory_decides_below_2_63_witness:
  "0 \<le> sint (1000 :: int64) \<and>
   prod_list (map sint [1000, 1000 :: int64]) < 2 ^ 63 \<and>
   prod_list (map sint [1000, 1000 :: int64]) * int 8 < 1024 ^ 9 \<and>
   (0 :: int) \<le> 7000000 \<and>
   (9000000 :: int) \<le> uint (16000000000 :: 64 word) + uint (0 :: 64 word) \<and>
   check_memory \<lparr>virtual_memory_available = 16000000000, swap_memory_free = 0\<rparr>
       [1000, 1000] 8 7000000 = Inl (DekerMemoryError 8000000 7000000 7000000) \<and>
   check_memory \<lparr>virtual_memory_available = 16000000000, swap_memory_free = 0\<rparr>
       [1000, 1000] 8 9000000 = Inr ()"
  using check_memory_decides_below_2_63
          [of "[1000, 1000]" 8 7000000
              "\<lparr>virtual_memory_available = 16000000000, swap_memory_free = 0\<rparr>"]
  by simp

text \<open>
  C1. The claim: the required size is the product of the extents times the element
  width, and the guard raises exactly when it exceeds the effective limit. On the shape
  \<open>(2 ^ 32, 2 ^ 32)\<close> with 8-byte elements the product of the extents times the width is
  \<open>2 ^ 67\<close> bytes, far above a configured limit of 9,000,000 bytes, and
  \<^verbatim>\<open>check_memory\<close> returns normally: the wrapped cell count is 0.
\<close>

theorem check_memory_admits_overflowing_shape:
  "check_memory \<lparr>virtual_memory_available = 16000000000, swap_memory_free = 0\<rparr>
      [4294967296, 4294967296] 8 9000000 = Inr () \<and>
   prod_list (map sint [4294967296, 4294967296 :: int64]) * 8 >
     min 9000000 (uint (16000000000 :: 64 word) + uint (0 :: 64 word))"
  by (simp add: check_memory_def convert_size_to_human_def calculate_total_cells_in_array_def
      np_prod_def)

text \<open>
  C10. For every shape with a zero extent the cell count is 0, so the required size is
  0 bytes and \<^verbatim>\<open>check_memory\<close> returns normally whenever the effective limit, the
  minimum of the configured limit and available memory plus free swap, is not negative.
\<close>

theorem zero_extent_shape_is_admitted:
  assumes "0 \<in> set shape"
  shows "calculate_total_cells_in_array shape = 0 \<and>
         (0 \<le> min mem_limit (uint (virtual_memory_available os) + uint (swap_memory_free os))
            \<longrightarrow> check_memory os shape itemsize mem_limit = Inr ())"
proof -
  have cells: "calculate_total_cells_in_array shape = 0"
    using assms
    by (auto simp: calculate_total_cells_in_array_def np_prod_def prod_list_zero_member)
  have size: "convert_size_to_human (int itemsize * calculate_total_cells_in_array shape) = Inr ()"
    by (simp add: cells convert_size_to_human_def)
  have "check_memory os shape itemsize mem_limit = Inr ()"
    if limit: "0 \<le> min mem_limit (uint (virtual_memory_available os) + uint (swap_memory_free os))"
  proof -
    have "\<not> int itemsize * calculate_total_cells_in_array shape >
            min mem_limit (uint (virtual_memory_available os) + uint (swap_memory_free os))"
      unfolding cells using limit by linarith
    then show ?thesis
      by (simp only: check_memory_unfold [OF size limit] if_False)
  qed
  with cells show ?thesis by blast
qed

theorem zero_extent_shape_is_admitted_witness:
  "(0 :: int64) \<in> set [3, 0, 5] \<and>
   calculate_total_cells_in_array [3, 0, 5] = 0 \<and>
   0 \<le> min 0 (uint (100 :: 64 word) + uint (0 :: 64 word)) \<and>
   check_memory \<lparr>virtual_memory_available = 100, swap_memory_free = 0\<rparr> [3, 0, 5] 8 0 = Inr ()"
  using zero_extent_shape_is_admitted
          [of "[3, 0, 5]" 0 "\<lparr>virtual_memory_available = 100, swap_memory_free = 0\<rparr>" 8]
  by simp

section \<open>Properties of the memory limit parser\<close>

lemma unit_of_suffix:
  "mapping (lower_char c) =
     (if c \<in> {CHR ''k'', CHR ''K''} then Some 1024
      else if c \<in> {CHR ''m'', CHR ''M''} then Some (1024 ^ 2)
      else if c \<in> {CHR ''g'', CHR ''G''} then Some (1024 ^ 3)
      else None)"
  by (simp add: mapping_def lower_char_def bytes'_def)

lemma last_lower:
  "s \<noteq> [] \<Longrightarrow> last (lower s) = lower_char (last s)"
  by (simp add: lower_def last_map)

lemma mapping_positive:
  "mapping c = Some u \<Longrightarrow> 0 < u"
  by (auto simp: mapping_def bytes'_def split: if_splits)

lemma set_strip:
  "set (strip s) \<subseteq> set s"
proof -
  have "set (strip s) = set (dropWhile is_space (rev (dropWhile is_space s)))"
    by (simp add: strip_def)
  also have "\<dots> \<subseteq> set (rev (dropWhile is_space s))"
    by (meson set_dropWhileD subsetI)
  also have "\<dots> \<subseteq> set s"
    using set_dropWhileD by fastforce
  finally show ?thesis .
qed

lemma int_of_str_nonneg:
  assumes "int_of_str s = Some n" and "CHR ''-'' \<notin> set s"
  shows "0 \<le> n"
proof (cases "strip s")
  case Nil
  with assms(1) show ?thesis by (simp add: int_of_str_def)
next
  case (Cons c cs)
  then have "c \<in> set s" using set_strip [of s] by auto
  with assms(2) have "c \<noteq> CHR ''-''" by auto
  with assms(1) Cons show ?thesis
    by (auto simp: int_of_str_def split: if_splits)
qed

lemma convert_str_unfold:
  "s \<noteq> [] \<Longrightarrow> int_of_str s = None \<Longrightarrow>
   convert_human_memory_to_bytes (PyStr s) =
     (case int_of_str (butlast s) of
        None \<Rightarrow> Inl (DekerValidationError (error_message s))
      | Some int_limit \<Rightarrow>
          (case mapping (lower_char (last s)) of
             None \<Rightarrow> Inl (DekerValidationError (error_message s))
           | Some unit \<Rightarrow> Inr (int_limit * unit)))"
  by (simp add: convert_human_memory_to_bytes_def last_lower)

lemmas parse_simps = convert_human_memory_to_bytes_def int_of_str_def strip_def is_space_def
  digits_def digit_of_def lower_def lower_char_def mapping_def bytes'_def

text \<open>
  C2. An integer is returned unchanged. A string that \<^verbatim>\<open>int\<close> parses as a whole is
  returned as that number. Otherwise, when the last character is one of k, m, g in either
  case and the text before it parses as an integer, the result is that integer times
  1024, 1024 squared or 1024 cubed. So \<^verbatim>\<open>"8G"\<close> gives \<open>8 * 1024 ^ 3\<close>,
  \<^verbatim>\<open>"512m"\<close> gives \<open>512 * 1024 ^ 2\<close> and \<^verbatim>\<open>"1024"\<close> gives 1024.
\<close>

theorem convert_human_memory_to_bytes_accepts:
  "convert_human_memory_to_bytes (PyInt n) = Inr n \<and>
   (int_of_str s = Some v \<longrightarrow> convert_human_memory_to_bytes (PyStr s) = Inr v) \<and>
   (int_of_str s = None \<and> s \<noteq> [] \<and> int_of_str (butlast s) = Some p \<longrightarrow>
      (last s \<in> {CHR ''k'', CHR ''K''} \<longrightarrow>
         convert_human_memory_to_bytes (PyStr s) = Inr (p * 1024)) \<and>
      (last s \<in> {CHR ''m'', CHR ''M''} \<longrightarrow>
         convert_human_memory_to_bytes (PyStr s) = Inr (p * 1024 ^ 2)) \<and>
      (last s \<in> {CHR ''g'', CHR ''G''} \<longrightarrow>
         convert_human_memory_to_bytes (PyStr s) = Inr (p * 1024 ^ 3))) \<and>
   convert_human_memory_to_bytes (PyStr ''8G'') = Inr (8 * 1024 ^ 3) \<and>
   convert_human_memory_to_bytes (PyStr ''512m'') = Inr (512 * 1024 ^ 2) \<and>
   convert_human_memory_to_bytes (PyStr ''1024'') = Inr 1024"
proof -
  have whole: "int_of_str s = Some v \<longrightarrow> convert_human_memory_to_bytes (PyStr s) = Inr v"
    by (simp add: convert_human_memory_to_bytes_def)
  have suffix: "int_of_str s = None \<and> s \<noteq> [] \<and> int_of_str (butlast s) = Some p \<longrightarrow>
      (last s \<in> {CHR ''k'', CHR ''K''} \<longrightarrow>
         convert_human_memory_to_bytes (PyStr s) = Inr (p * 1024)) \<and>
      (last s \<in> {CHR ''m'', CHR ''M''} \<longrightarrow>
         convert_human_memory_to_bytes (PyStr s) = Inr (p * 1024 ^ 2)) \<and>
      (last s \<in> {CHR ''g'', CHR ''G''} \<longrightarrow>
         convert_human_memory_to_bytes (PyStr s) = Inr (p * 1024 ^ 3))"
    by (auto simp: convert_str_unfold unit_of_suffix)
  have e1: "convert_human_memory_to_bytes (PyStr ''8G'') = Inr (8 * 1024 ^ 3)"
    by (simp add: parse_simps)
  have e2: "convert_human_memory_to_bytes (PyStr ''512m'') = Inr (512 * 1024 ^ 2)"
    by (simp add: parse_simps)
  have e3: "convert_human_memory_to_bytes (PyStr ''1024'') = Inr 1024"
    by (simp add: parse_simps)
  have e0: "convert_human_memory_to_bytes (PyInt n) = Inr n"
    by (simp add: convert_human_memory_to_bytes_def)
  from e0 whole suffix e1 e2 e3 show ?thesis by blast
qed

theorem convert_human_memory_to_bytes_accepts_witness:
  "int_of_str ''16'' = Some 16 \<and>
   convert_human_memory_to_bytes (PyStr ''16'') = Inr 16 \<and>
   int_of_str ''16K'' = None \<and> ''16K'' \<noteq> [] \<and> int_of_str (butlast ''16K'') = Some 16 \<and>
   last ''16K'' \<in> {CHR ''k'', CHR ''K''} \<and>
   convert_human_memory_to_bytes (PyStr ''16K'') = Inr (16 * 1024)"
proof -
  have a: "int_of_str ''16'' = Some 16"
    by (simp add: parse_simps)
  have b: "int_of_str ''16K'' = None"
    by (simp add: parse_simps)
  have c: "int_of_str (butlast ''16K'') = Some 16"
    by (simp add: parse_simps)
  from a convert_human_memory_to_bytes_accepts [of 0 "''16''" 16 0]
  have d: "convert_human_memory_to_bytes (PyStr ''16'') = Inr 16" by blast
  from b c convert_human_memory_to_bytes_accepts [of 0 "''16K''" 0 16]
  have e: "convert_human_memory_to_bytes (PyStr ''16K'') = Inr (16 * 1024)" by simp
  from a b c d e show ?thesis by simp
qed

text \<open>
  Rejection of everything but the empty string: an object that is neither an
  \<^verbatim>\<open>int\<close> nor a \<^verbatim>\<open>str\<close>, and a non-empty string of ASCII
  characters that does not parse as a whole and whose prefix does not parse or whose last
  character is none of k, m, g in either case, fail with a
  \<^verbatim>\<open>DekerValidationError\<close> whose message names the value and the accepted
  formats. \<^verbatim>\<open>"abc"\<close>, \<^verbatim>\<open>"8x"\<close> and \<^verbatim>\<open>3.5\<close> are such
  inputs. Beyond ASCII the statement is silent: there \<^verbatim>\<open>int\<close> knows further
  spaces and digits.
\<close>

theorem convert_human_memory_to_bytes_rejects:
  "convert_human_memory_to_bytes (PyOther obj) = Inl (DekerValidationError (error_message obj)) \<and>
   (s \<noteq> [] \<and> (\<forall>c\<in>set s. of_char c < (128 :: nat)) \<and> int_of_str s = None \<and>
      (int_of_str (butlast s) = None \<or> last s \<notin> set ''kKmMgG'') \<longrightarrow>
      convert_human_memory_to_bytes (PyStr s) = Inl (DekerValidationError (error_message s))) \<and>
   convert_human_memory_to_bytes (PyStr ''abc'') = Inl (DekerValidationError (error_message ''abc'')) \<and>
   convert_human_memory_to_bytes (PyStr ''8x'') = Inl (DekerValidationError (error_message ''8x'')) \<and>
   convert_human_memory_to_bytes (PyOther ''3.5'') = Inl (DekerValidationError (error_message ''3.5''))"
proof -
  have other: "convert_human_memory_to_bytes (PyOther t) = Inl (DekerValidationError (error_message t))"
    for t by (simp add: convert_human_memory_to_bytes_def)
  have bad: "s \<noteq> [] \<and> (\<forall>c\<in>set s. of_char c < (128 :: nat)) \<and> int_of_str s = None \<and>
      (int_of_str (butlast s) = None \<or> last s \<notin> set ''kKmMgG'') \<longrightarrow>
      convert_human_memory_to_bytes (PyStr s) = Inl (DekerValidationError (error_message s))"
    by (auto simp: convert_str_unfold unit_of_suffix split: option.splits)
  have e1: "convert_human_memory_to_bytes (PyStr ''abc'') =
      Inl (DekerValidationError (error_message ''abc''))"
    by (simp add: parse_simps)
  have e2: "convert_human_memory_to_bytes (PyStr ''8x'') =
      Inl (DekerValidationError (error_message ''8x''))"
    by (simp add: parse_simps)
  from other [of obj] other [of "''3.5''"] bad e1 e2 show ?thesis by blast
qed

theorem convert_human_memory_to_bytes_rejects_witness:
  "''8 x'' \<noteq> [] \<and> list_all (\<lambda>c. of_char c < (128 :: nat)) ''8 x'' \<and>
   int_of_str ''8 x'' = None \<and> last ''8 x'' \<notin> set ''kKmMgG'' \<and>
   convert_human_memory_to_bytes (PyStr ''8 x'') = Inl (DekerValidationError (error_message ''8 x''))"
proof -
  have a: "int_of_str ''8 x'' = None"
    by (simp add: parse_simps)
  have b: "last ''8 x'' \<notin> set ''kKmMgG''" by simp
  have c: "\<forall>c\<in>set ''8 x''. of_char c < (128 :: nat)" by simp
  from a b c convert_human_memory_to_bytes_rejects [of "''''" "''8 x''"]
  have "convert_human_memory_to_bytes (PyStr ''8 x'') =
      Inl (DekerValidationError (error_message ''8 x''))" by simp
  with a b c show ?thesis by simp
qed

text \<open>
  C4. The claim: every input that is not accepted, the empty string among them, fails
  with a validation error and with no other kind of error. On the empty string
  \<^verbatim>\<open>int("")\<close> is a \<^verbatim>\<open>ValueError\<close>, which is passed over, and
  \<^verbatim>\<open>memory_limit.lower()[-1]\<close> then raises an \<^verbatim>\<open>IndexError\<close> outside the
  \<^verbatim>\<open>try\<close> that turns exceptions into validation errors.
\<close>

theorem convert_human_memory_to_bytes_empty_string:
  "convert_human_memory_to_bytes (PyStr '''') = Inl (IndexError ''string index out of range'') \<and>
   int_of_str '''' = None"
  by (simp add: parse_simps)

text \<open>
  C6. The claim: every value the parser returns is non-negative. The integer
  \<open>- 1\<close> is returned unchanged, and the string \<^verbatim>\<open>"-1k"\<close> gives \<open>- 1024\<close>.
\<close>

theorem convert_human_memory_to_bytes_negative:
  "convert_human_memory_to_bytes (PyInt (- 1)) = Inr (- 1) \<and>
   convert_human_memory_to_bytes (PyStr ''-1k'') = Inr (- 1024) \<and>
   \<not> (0 :: int) \<le> - 1 \<and> \<not> (0 :: int) \<le> - 1024"
  by (simp add: parse_simps)

text \<open>
  C6, as amended: the parser checks no sign. An integer input is returned unchanged,
  so the result is non-negative exactly when the input is; and whenever the parser
  returns on a string that holds no minus sign, the result is a non-negative integer.
\<close>

theorem convert_human_memory_to_bytes_sign:
  assumes "convert_human_memory_to_bytes v = Inr r"
  shows "(\<forall>n. v = PyInt n \<longrightarrow> r = n) \<and>
         (\<forall>s. v = PyStr s \<and> CHR ''-'' \<notin> set s \<longrightarrow> 0 \<le> r)"
proof (cases v)
  case (PyInt n)
  with assms show ?thesis by (simp add: convert_human_memory_to_bytes_def)
next
  case (PyOther obj)
  with assms show ?thesis by (simp add: convert_human_memory_to_bytes_def)
next
  case (PyStr s)
  have "0 \<le> r" if nominus: "CHR ''-'' \<notin> set s"
  proof (cases "int_of_str s")
    case (Some n)
    with assms PyStr have "r = n" by (simp add: convert_human_memory_to_bytes_def)
    with Some nominus show ?thesis by (simp add: int_of_str_nonneg)
  next
    case None
    with assms PyStr have ne: "s \<noteq> []"
      by (auto simp: convert_human_memory_to_bytes_def)
    from assms PyStr None ne obtain p u where
      p: "int_of_str (butlast s) = Some p" and u: "mapping (lower_char (last s)) = Some u"
      and r: "r = p * u"
      by (auto simp: convert_str_unfold split: option.splits)
    have "CHR ''-'' \<notin> set (butlast s)" using nominus by (meson in_set_butlastD)
    with p have "0 \<le> p" by (rule int_of_str_nonneg)
    moreover have "0 < u" using u by (rule mapping_positive)
    ultimately show ?thesis using r by simp
  qed
  with PyStr show ?thesis by simp
qed

theorem convert_human_memory_to_bytes_sign_witness:
  "convert_human_memory_to_bytes (PyStr ''8G'') = Inr 8589934592 \<and>
   CHR ''-'' \<notin> set ''8G'' \<and> (0 :: int) \<le> 8589934592"
proof -
  have a: "convert_human_memory_to_bytes (PyStr ''8G'') = Inr 8589934592"
    by (simp add: parse_simps)
  from convert_human_memory_to_bytes_sign [OF a] show ?thesis using a by simp
qed

section \<open>Properties of the identity generator\<close>

lemma namespaces_distinct:
  "NAMESPACE_X500 \<noteq> NAMESPACE_OID"
  by (simp add: NAMESPACE_X500_def NAMESPACE_OID_def)

lemma generate_uid_member:
  "generate_uid c (Member k) =
     Inr (uuid5 c (if k = array then NAMESPACE_X500 else NAMESPACE_OID)
            (array_type_value c k @ isoformat c (get_utc c)))"
  by (simp add: generate_uid_def)

lemma generate_uid_non_member:
  "generate_uid c (NonMember x) =
     Inl (TypeError ''Invalid argument type. Array type is required'')"
  by (simp add: generate_uid_def)

text \<open>
  C7. For a member of the enumeration the identifier is the name-based identifier
  \<^verbatim>\<open>uuid5\<close> of a namespace and a name. The namespace is one of two fixed, distinct
  constants, \<^verbatim>\<open>NAMESPACE_X500\<close> for \<^verbatim>\<open>array\<close> and
  \<^verbatim>\<open>NAMESPACE_OID\<close> for \<^verbatim>\<open>varray\<close>, so two kinds have the same namespace
  only when they are the same kind. The name is the member's value followed by the ISO
  rendering of the clock reading. The clock enters only through that rendering: two
  calls for the same kind whose readings render alike, as identical readings do, return
  the same identifier.
\<close>

theorem generate_uid_deterministic:
  "generate_uid c (Member k) =
     Inr (uuid5 c (if k = array then NAMESPACE_X500 else NAMESPACE_OID)
            (array_type_value c k @ isoformat c (get_utc c))) \<and>
   NAMESPACE_X500 \<noteq> NAMESPACE_OID \<and>
   ((if k = array then NAMESPACE_X500 else NAMESPACE_OID) =
      (if k' = array then NAMESPACE_X500 else NAMESPACE_OID) \<longleftrightarrow> k = k') \<and>
   (isoformat c t1 = isoformat c t2 \<longrightarrow>
      generate_uid (c\<lparr>get_utc := t1\<rparr>) (Member k) =
      generate_uid (c\<lparr>get_utc := t2\<rparr>) (Member k))"
proof -
  have one_to_one: "(if k = array then NAMESPACE_X500 else NAMESPACE_OID) =
      (if k' = array then NAMESPACE_X500 else NAMESPACE_OID) \<longleftrightarrow> k = k'"
    using namespaces_distinct by (cases k; cases k') auto
  have same: "isoformat c t1 = isoformat c t2 \<longrightarrow>
      generate_uid (c\<lparr>get_utc := t1\<rparr>) (Member k) =
      generate_uid (c\<lparr>get_utc := t2\<rparr>) (Member k)"
    by (simp add: generate_uid_member)
  from generate_uid_member [of c k] namespaces_distinct one_to_one same
  show ?thesis by blast
qed

theorem generate_uid_deterministic_witness:
  "isoformat \<lparr>array_type_value = case_ArrayType ''array'' ''varray'',
      get_utc = ''2023-05-17T10:15:30.123456'', isoformat = id, uuid5 = (@)\<rparr>
      ''2023-05-17T10:15:30.123456'' =
   isoformat \<lparr>array_type_value = case_ArrayType ''array'' ''varray'',
      get_utc = ''2023-05-17T10:15:30.123456'', isoformat = id, uuid5 = (@)\<rparr>
      ''2023-05-17T10:15:30.123456'' \<and>
   generate_uid \<lparr>array_type_value = case_ArrayType ''array'' ''varray'',
      get_utc = ''2023-05-17T10:15:30.123456'', isoformat = id, uuid5 = (@)\<rparr> (Member varray) =
     Inr (NAMESPACE_OID @ ''varray'' @ ''2023-05-17T10:15:30.123456'')"
  using generate_uid_deterministic
          [of "\<lparr>array_type_value = case_ArrayType ''array'' ''varray'',
                get_utc = ''2023-05-17T10:15:30.123456'', isoformat = id, uuid5 = (@)\<rparr>"
              varray varray "''2023-05-17T10:15:30.123456''" "''2023-05-17T10:15:30.123456''"]
  by simp

text \<open>
  C8. The claim: an argument that is no member of the enumeration raises a
  \<^verbatim>\<open>TypeError\<close> that names the invalid kind. The message of the source is a fixed
  text: for the argument \<^verbatim>\<open>"third"\<close> it is
  \<^verbatim>\<open>Invalid argument type. Array type is required\<close>, in which \<^verbatim>\<open>third\<close>
  does not occur.
\<close>

theorem generate_uid_error_does_not_name_argument:
  "generate_uid \<lparr>array_type_value = case_ArrayType ''array'' ''varray'',
      get_utc = ''2023-05-17T10:15:30.123456'', isoformat = id, uuid5 = (@)\<rparr>
      (NonMember ''third'') =
     Inl (TypeError ''Invalid argument type. Array type is required'') \<and>
   \<not> sublist ''third'' ''Invalid argument type. Array type is required''"
  by (simp add: generate_uid_def sublist_code(3))

text \<open>
  C8, as amended: \<^verbatim>\<open>generate_uid\<close> raises exactly when its argument is no member
  of the enumeration; the error is a \<^verbatim>\<open>TypeError\<close> with the fixed message
  \<^verbatim>\<open>Invalid argument type. Array type is required\<close>, the same for every such
  argument. For either member it never raises and returns the identifier.
\<close>

theorem generate_uid_raises_iff_not_member:
  "((\<exists>e. generate_uid c a = Inl e) \<longleftrightarrow> (\<exists>x. a = NonMember x)) \<and>
   generate_uid c (NonMember x) =
     Inl (TypeError ''Invalid argument type. Array type is required'') \<and>
   generate_uid c (Member k) =
     Inr (uuid5 c (if k = array then NAMESPACE_X500 else NAMESPACE_OID)
            (array_type_value c k @ isoformat c (get_utc c)))"
proof -
  have "(\<exists>e. generate_uid c a = Inl e) \<longleftrightarrow> (\<exists>x. a = NonMember x)"
    by (cases a) (simp_all add: generate_uid_member generate_uid_non_member)
  with generate_uid_member [of c k] generate_uid_non_member [of c x]
  show ?thesis by blast
qed

text \<open>
  C9. \<^verbatim>\<open>get_id\<close> gives an \<^verbatim>\<open>Array\<close> object the identifier generated for
  \<^verbatim>\<open>ArrayType.array\<close> and a \<^verbatim>\<open>VArray\<close> object the identifier generated for
  \<^verbatim>\<open>ArrayType.varray\<close>; on every other object it raises a \<^verbatim>\<open>TypeError\<close>
  whose message reports the type of the object.
\<close>

theorem get_id_dispatch:
  "get_id c ArrayObject = generate_uid c (Member array) \<and>
   get_id c ArrayObject =
     Inr (uuid5 c NAMESPACE_X500 (array_type_value c array @ isoformat c (get_utc c))) \<and>
   get_id c VArrayObject = generate_uid c (Member varray) \<and>
   get_id c VArrayObject =
     Inr (uuid5 c NAMESPACE_OID (array_type_value c varray @ isoformat c (get_utc c))) \<and>
   get_id c (OtherObject type_text) =
     Inl (TypeError (''Invalid object type: '' @ type_text))"
  by (simp add: get_id_def generate_uid_member)

end
